theory Spec2Isabelle
  imports Complex_Main
begin

section \<open>Values\<close>

text \<open>
  Python floats. A finite float is idealised as a real number (no rounding, no overflow);
  the three non-finite values are kept, since \<^verbatim>\<open>json.load\<close> reads
  \<^verbatim>\<open>NaN\<close>, \<^verbatim>\<open>Infinity\<close> and \<^verbatim>\<open>-Infinity\<close>
  and a network can return any of them.
\<close>

datatype pyfloat = Fin real | PInf | NInf | NaN

fun fsub :: "pyfloat \<Rightarrow> pyfloat \<Rightarrow> pyfloat" where
  "fsub NaN y = NaN"
| "fsub x NaN = NaN"
| "fsub (Fin a) (Fin b) = Fin (a - b)"
| "fsub (Fin a) PInf = NInf"
| "fsub (Fin a) NInf = PInf"
| "fsub PInf PInf = NaN"
| "fsub PInf y = PInf"
| "fsub NInf NInf = NaN"
| "fsub NInf y = NInf"

fun fsign :: "real \<Rightarrow> pyfloat \<Rightarrow> pyfloat" where
  "fsign a x = (if a = 0 then NaN else if 0 < a then x
                else (case x of PInf \<Rightarrow> NInf | NInf \<Rightarrow> PInf | y \<Rightarrow> y))"

fun fmul :: "pyfloat \<Rightarrow> pyfloat \<Rightarrow> pyfloat" where
  "fmul NaN y = NaN"
| "fmul x NaN = NaN"
| "fmul (Fin a) (Fin b) = Fin (a * b)"
| "fmul (Fin a) y = fsign a y"
| "fmul x (Fin b) = fsign b x"
| "fmul PInf y = y"
| "fmul NInf y = fsign (- 1) y"

text \<open>Division as the float unit does it (a zero divisor gives an infinity or NaN);
  Python's own \<^verbatim>\<open>/\<close> tests the divisor first, see \<open>py_truediv\<close>.\<close>

fun fdiv :: "pyfloat \<Rightarrow> pyfloat \<Rightarrow> pyfloat" where
  "fdiv NaN y = NaN"
| "fdiv x NaN = NaN"
| "fdiv (Fin a) (Fin b) = (if b = 0 then fsign a PInf else Fin (a / b))"
| "fdiv (Fin a) y = Fin 0"
| "fdiv x (Fin b) = (if b = 0 then x else fsign b x)"
| "fdiv x y = NaN"

fun fabs :: "pyfloat \<Rightarrow> pyfloat" where
  "fabs (Fin a) = Fin \<bar>a\<bar>"
| "fabs PInf = PInf"
| "fabs NInf = PInf"
| "fabs NaN = NaN"

fun fgt :: "pyfloat \<Rightarrow> pyfloat \<Rightarrow> bool" where
  "fgt NaN y = False"
| "fgt x NaN = False"
| "fgt (Fin a) (Fin b) = (b < a)"
| "fgt PInf PInf = False"
| "fgt PInf y = True"
| "fgt x PInf = False"
| "fgt NInf y = False"
| "fgt x NInf = True"

text \<open>\<^verbatim>\<open>max(a, b)\<close> of Python: the first argument stays unless the second is
  greater, so a NaN in second place loses.\<close>

definition py_max :: "pyfloat \<Rightarrow> pyfloat \<Rightarrow> pyfloat" where
  "py_max a b = (if fgt b a then b else a)"

text \<open>\<^verbatim>\<open>np.clip(x, lo, hi)\<close> is \<^verbatim>\<open>minimum(maximum(x, lo), hi)\<close>,
  and both propagate NaN.\<close>

fun np_clip :: "pyfloat \<Rightarrow> real \<Rightarrow> real \<Rightarrow> pyfloat" where
  "np_clip (Fin a) lo hi = Fin (min (max a lo) hi)"
| "np_clip PInf lo hi = Fin hi"
| "np_clip NInf lo hi = Fin (min lo hi)"
| "np_clip NaN lo hi = NaN"

text \<open>
  The values \<^verbatim>\<open>json.load\<close> produces. Python's \<^verbatim>\<open>int\<close> and
  \<^verbatim>\<open>float\<close> are one constructor: the code only does arithmetic on them.
  A dict is an association list read with \<open>map_of\<close>.
\<close>

datatype pyval =
    VNone
  | VBool bool
  | VNum pyfloat
  | VStr string
  | VList "pyval list"
  | VDict "(string \<times> pyval) list"

datatype exn_class =
  FileNotFoundError | ZeroDivisionError | TypeError | AttributeError | ValueError | OtherException

text \<open>An exception: its class and \<^verbatim>\<open>str(e)\<close>. Every class here derives from
  \<^verbatim>\<open>Exception\<close>.\<close>

datatype exn = Exn exn_class string

text \<open>A name between single quotes, as the interpreter's messages print it. The messages
  that name the type of an operand are shortened.\<close>

definition quoted :: "string \<Rightarrow> string" where
  "quoted s = CHR 0x27 # s @ [CHR 0x27]"

fun exn_str :: "exn \<Rightarrow> string" where
  "exn_str (Exn k msg) = msg"

fun exn_cls :: "exn \<Rightarrow> exn_class" where
  "exn_cls (Exn k msg) = k"

abbreviation num :: "real \<Rightarrow> pyval" where
  "num r \<equiv> VNum (Fin r)"

text \<open>The number a value counts as in arithmetic (\<^verbatim>\<open>True\<close> is 1).\<close>

fun as_number :: "pyval \<Rightarrow> pyfloat option" where
  "as_number (VNum f) = Some f"
| "as_number (VBool b) = Some (Fin (if b then 1 else 0))"
| "as_number v = None"

text \<open>\<^verbatim>\<open>v * 2\<close>\<close>

fun py_mul2 :: "pyval \<Rightarrow> exn + pyval" where
  "py_mul2 (VNum f) = Inr (VNum (fmul f (Fin 2)))"
| "py_mul2 (VBool b) = Inr (VNum (Fin (if b then 2 else 0)))"
| "py_mul2 (VStr s) = Inr (VStr (s @ s))"
| "py_mul2 (VList xs) = Inr (VList (xs @ xs))"
| "py_mul2 v = Inl (Exn TypeError ''unsupported operand type(s) for *'')"

text \<open>\<^verbatim>\<open>x - v\<close> with \<open>x\<close> a float\<close>

definition py_float_sub :: "pyfloat \<Rightarrow> pyval \<Rightarrow> exn + pyfloat" where
  "py_float_sub x v =
     (case as_number v of
        None \<Rightarrow> Inl (Exn TypeError ''unsupported operand type(s) for -'')
      | Some f \<Rightarrow> Inr (fsub x f))"

text \<open>\<^verbatim>\<open>x / v\<close> with \<open>x\<close> a float: Python raises on a zero divisor.\<close>

definition py_truediv :: "pyfloat \<Rightarrow> pyval \<Rightarrow> exn + pyfloat" where
  "py_truediv x v =
     (case as_number v of
        None \<Rightarrow> Inl (Exn TypeError ''unsupported operand type(s) for /'')
      | Some f \<Rightarrow>
          if f = Fin 0 then Inl (Exn ZeroDivisionError ''float division by zero'')
          else Inr (fdiv x f))"

section \<open>Feature vector\<close>

text \<open>\<^verbatim>\<open>d.get(k, default)\<close>\<close>

definition dict_get :: "(string \<rightharpoonup> pyval) \<Rightarrow> string \<Rightarrow> pyval \<Rightarrow> pyval" where
  "dict_get d k dflt = (case d k of None \<Rightarrow> dflt | Some v \<Rightarrow> v)"

text \<open>
  \<^verbatim>\<open>{'fast': 2, 'medium': 1, 'slow': 0}.get(v, 1)\<close>: the lookup hashes \<open>v\<close>, and a
  list or a dict is unhashable.
\<close>

fun pace_code :: "pyval \<Rightarrow> exn + pyval" where
  "pace_code (VList xs) = Inl (Exn TypeError (''unhashable type: '' @ quoted ''list''))"
| "pace_code (VDict kvs) = Inl (Exn TypeError (''unhashable type: '' @ quoted ''dict''))"
| "pace_code (VStr s) =
     Inr (if s = ''fast'' then num 2 else if s = ''medium'' then num 1
          else if s = ''slow'' then num 0 else num 1)"
| "pace_code v = Inr (num 1)"

text \<open>The 17 features, in the order of training (predict.py 59-77, the same text as
  train\_model.py 61-79).\<close>

definition feature_vector :: "(string \<rightharpoonup> pyval) \<Rightarrow> exn + pyval list" where
  "feature_vector feature_data =
     (case pace_code (dict_get feature_data ''learning_pace'' (VStr ''medium'')) of
        Inl e \<Rightarrow> Inl e
      | Inr pace \<Rightarrow> Inr
         [dict_get feature_data ''item_difficulty'' (num 0.5),
          dict_get feature_data ''user_mastery'' (num 0.5),
          dict_get feature_data ''days_since_last_review'' (num 0),
          dict_get feature_data ''response_time_seconds'' (num 5),
          dict_get feature_data ''quality_rating'' (num 3),
          dict_get feature_data ''repetition_count'' (num 0),
          dict_get feature_data ''current_ease_factor'' (num 2.5),
          dict_get feature_data ''current_interval'' (num 1),
          dict_get feature_data ''hour_of_day'' (num 12),
          dict_get feature_data ''day_of_week'' (num 3),
          dict_get feature_data ''time_since_learning_start'' (num 0),
          dict_get feature_data ''previous_interval'' (num 0),
          pace,
          dict_get feature_data ''cluster_mastery'' (num 0.5),
          dict_get feature_data ''is_quiz'' (num 0),
          dict_get feature_data ''quiz_score'' (num 0),
          dict_get feature_data ''quiz_questions_count'' (num 0)])"

section \<open>Prediction service (predict.py)\<close>

text \<open>
  The libraries are parameters. An array is the nested list of its elements, so
  \<^verbatim>\<open>np.array\<close> only wraps. A loaded network is what
  \<^verbatim>\<open>model.predict(X, verbose=0)[0][0]\<close> gives on an array, an unpickled
  scaler is what its \<^verbatim>\<open>transform\<close> gives; both may raise.
\<close>

type_synonym ndarray = "pyval list list"
type_synonym keras_model = "ndarray \<Rightarrow> exn + pyfloat"
type_synonym scaler_obj = "ndarray \<Rightarrow> exn + ndarray"

text \<open>\<^verbatim>\<open>os.path.join(os.path.dirname(__file__), 'models')\<close>\<close>

record env =
  model_dir :: string

definition model_path :: "'a env_scheme \<Rightarrow> string" where
  "model_path env = model_dir env @ ''/nsm_model.keras''"

definition scaler_path :: "'a env_scheme \<Rightarrow> string" where
  "scaler_path env = model_dir env @ ''/scaler.pkl''"

definition metadata_path :: "'a env_scheme \<Rightarrow> string" where
  "metadata_path env = model_dir env @ ''/metadata.json''"

text \<open>
  The three files of the model directory. \<open>None\<close>: the file does not exist;
  \<open>Some (Inl e)\<close>: it exists and reading it raises \<open>e\<close>; \<open>Some (Inr x)\<close>: it reads
  as \<open>x\<close>.
\<close>

record files =
  model_file :: "(exn + keras_model) option"
  scaler_file :: "(exn + scaler_obj) option"
  metadata_file :: "(exn + pyval) option"

text \<open>The module globals \<^verbatim>\<open>_model\<close>, \<^verbatim>\<open>_scaler\<close>, \<^verbatim>\<open>_metadata\<close>;
  \<open>None\<close> and \<open>VNone\<close> are Python's \<^verbatim>\<open>None\<close>.\<close>

record cache =
  cache_model :: "keras_model option"
  cache_scaler :: "scaler_obj option"
  cache_metadata :: pyval

definition empty_cache :: cache where
  "empty_cache = \<lparr>cache_model = None, cache_scaler = None, cache_metadata = VNone\<rparr>"

definition no_such_file :: "string \<Rightarrow> exn" where
  "no_such_file path =
     Exn FileNotFoundError (''[Errno 2] No such file or directory: '' @ quoted path)"

definition load_model ::
  "env \<Rightarrow> files \<Rightarrow> cache \<Rightarrow> (exn + keras_model \<times> scaler_obj option \<times> pyval) \<times> cache" where
  "load_model env fs c =
     (case cache_model c of
        Some m \<Rightarrow> (Inr (m, cache_scaler c, cache_metadata c), c)
      | None \<Rightarrow>
         (case model_file fs of
            None \<Rightarrow>
              (Inl (Exn FileNotFoundError
                 (''Model not found at '' @ model_path env @ ''. Train model first.'')), c)
          | Some (Inl e) \<Rightarrow> (Inl e, c)
          | Some (Inr m) \<Rightarrow>
             (let c1 = c\<lparr>cache_model := Some m\<rparr> in
              case scaler_file fs of
                None \<Rightarrow> (Inl (no_such_file (scaler_path env)), c1)
              | Some (Inl e) \<Rightarrow> (Inl e, c1)
              | Some (Inr s) \<Rightarrow>
                 (let c2 = c1\<lparr>cache_scaler := Some s\<rparr> in
                  case metadata_file fs of
                    None \<Rightarrow> (Inl (no_such_file (metadata_path env)), c2)
                  | Some (Inl e) \<Rightarrow> (Inl e, c2)
                  | Some (Inr md) \<Rightarrow>
                      (Inr (m, Some s, md), c2\<lparr>cache_metadata := md\<rparr>)))))"

text \<open>\<^verbatim>\<open>metadata.get(k)\<close>: only a dict has \<^verbatim>\<open>get\<close>.\<close>

fun metadata_get :: "pyval \<Rightarrow> string \<Rightarrow> exn + pyval" where
  "metadata_get (VDict kvs) k = Inr (case map_of kvs k of None \<Rightarrow> VNone | Some v \<Rightarrow> v)"
| "metadata_get v k = Inl (Exn AttributeError ''object has no attribute get'')"

text \<open>\<^verbatim>\<open>scaler.transform(X)\<close>\<close>

fun scaler_transform :: "scaler_obj option \<Rightarrow> ndarray \<Rightarrow> exn + ndarray" where
  "scaler_transform None X =
     Inl (Exn AttributeError
       (quoted ''NoneType'' @ '' object has no attribute '' @ quoted ''transform''))"
| "scaler_transform (Some t) X = t X"

text \<open>Lines 93-95: the confidence from the clipped prediction and \<^verbatim>\<open>current_interval\<close>.\<close>

definition confidence_of :: "pyfloat \<Rightarrow> pyval \<Rightarrow> exn + pyfloat" where
  "confidence_of predicted_interval current_interval =
     (case py_mul2 current_interval of
        Inl e \<Rightarrow> Inl e
      | Inr typical_interval \<Rightarrow>
         (case py_float_sub predicted_interval typical_interval of
            Inl e \<Rightarrow> Inl e
          | Inr d \<Rightarrow>
             (case py_truediv (fabs d) typical_interval of
                Inl e \<Rightarrow> Inl e
              | Inr uncertainty \<Rightarrow>
                  Inr (py_max (Fin 0.5) (fsub (Fin 1.0) (fmul uncertainty (Fin 0.5)))))))"

text \<open>Lines 58-104, the body of the \<^verbatim>\<open>try\<close> after the load.\<close>

definition predict_steps ::
  "keras_model \<Rightarrow> scaler_obj option \<Rightarrow> pyval \<Rightarrow> (string \<rightharpoonup> pyval)
     \<Rightarrow> exn + (string \<times> pyval) list" where
  "predict_steps model scaler metadata feature_data =
     (case feature_vector feature_data of
        Inl e \<Rightarrow> Inl e
      | Inr features \<Rightarrow>
     (let X = [features] in
      case scaler_transform scaler X of
        Inl e \<Rightarrow> Inl e
      | Inr X_scaled \<Rightarrow>
     (case model X_scaled of
        Inl e \<Rightarrow> Inl e
      | Inr prediction \<Rightarrow>
     (let predicted_interval = np_clip prediction 1 180 in
      case confidence_of predicted_interval (dict_get feature_data ''current_interval'' (num 1)) of
        Inl e \<Rightarrow> Inl e
      | Inr confidence \<Rightarrow>
     (case metadata_get metadata ''model_version'' of
        Inl e \<Rightarrow> Inl e
      | Inr version \<Rightarrow>
     (case metadata_get metadata ''trained_at'' of
        Inl e \<Rightarrow> Inl e
      | Inr trained \<Rightarrow>
          Inr [(''success'', VBool True),
               (''predicted_interval'', VNum predicted_interval),
               (''confidence'', VNum confidence),
               (''model_version'', version),
               (''trained_at'', trained),
               (''method'', VStr ''neural_network'')]))))))"

definition predict_interval_try ::
  "env \<Rightarrow> files \<Rightarrow> cache \<Rightarrow> (string \<rightharpoonup> pyval) \<Rightarrow> (exn + (string \<times> pyval) list) \<times> cache" where
  "predict_interval_try env fs c feature_data =
     (case load_model env fs c of
        (Inl e, c') \<Rightarrow> (Inl e, c')
      | (Inr (model, scaler, metadata), c') \<Rightarrow>
          (predict_steps model scaler metadata feature_data, c'))"

text \<open>The two handlers, lines 106-118.\<close>

definition handle_exn :: "exn \<Rightarrow> (string \<times> pyval) list" where
  "handle_exn e =
     (if exn_cls e = FileNotFoundError
      then [(''success'', VBool False),
            (''error'', VStr (exn_str e)),
            (''fallback_to_rules'', VBool True)]
      else [(''success'', VBool False),
            (''error'', VStr (''Prediction error: '' @ exn_str e)),
            (''fallback_to_rules'', VBool True)])"

definition predict_interval ::
  "env \<Rightarrow> files \<Rightarrow> cache \<Rightarrow> (string \<rightharpoonup> pyval) \<Rightarrow> (string \<times> pyval) list \<times> cache" where
  "predict_interval env fs c feature_data =
     (case predict_interval_try env fs c feature_data of
        (Inr result, c') \<Rightarrow> (result, c')
      | (Inl e, c') \<Rightarrow> (handle_exn e, c'))"

section \<open>Training pipeline (train\_model.py)\<close>

text \<open>\<^verbatim>\<open>str\<close> of an integer, as the f-string of the error message prints it.\<close>

definition digit :: "nat \<Rightarrow> char" where
  "digit d = ''0123456789'' ! d"

fun decimal :: "nat \<Rightarrow> string \<Rightarrow> string" where
  "decimal n rest =
     (if n < 10 then digit n # rest else decimal (n div 10) (digit (n mod 10) # rest))"

definition str_int :: "int \<Rightarrow> string" where
  "str_int i = (if i < 0 then CHR ''-'' # decimal (nat (- i)) [] else decimal (nat i) [])"

text \<open>
  What the run takes from outside: the environment variable, the rows the query returns
  (\<^verbatim>\<open>feature_data\<close> and \<^verbatim>\<open>outcome_data\<close> of each row, or the exception of the
  connection or the query), the permutation \<^verbatim>\<open>train_test_split\<close> draws for
  \<open>n\<close> samples with \<^verbatim>\<open>random_state=42\<close>, \<^verbatim>\<open>StandardScaler().fit\<close>, the
  network (build, fit and evaluate, giving the fitted model, \<^verbatim>\<open>val_loss\<close> and
  \<^verbatim>\<open>val_mae\<close>) and the clock.
\<close>

record train_env = env +
  database_url :: "string option"
  fetch_rows :: "exn + (pyval \<times> pyval) list"
  permutation :: "nat \<Rightarrow> nat list"
  scaler_fit :: "ndarray \<Rightarrow> exn + scaler_obj"
  fit_model :: "ndarray \<Rightarrow> pyval list \<Rightarrow> ndarray \<Rightarrow> pyval list
                  \<Rightarrow> exn + keras_model \<times> pyfloat \<times> pyfloat"
  now_isoformat :: string

text \<open>One pass of the loop of \<^verbatim>\<open>extract_features\<close> (lines 57-83).\<close>

fun row_features :: "pyval \<times> pyval \<Rightarrow> exn + pyval list \<times> pyval" where
  "row_features (VDict fkvs, outcome_data) =
     (case feature_vector (map_of fkvs) of
        Inl e \<Rightarrow> Inl e
      | Inr feature_vec \<Rightarrow>
         (case outcome_data of
            VDict okvs \<Rightarrow> Inr (feature_vec, dict_get (map_of okvs) ''next_interval'' (num 1))
          | v \<Rightarrow> Inl (Exn AttributeError ''object has no attribute get'')))"
| "row_features (v, outcome_data) = Inl (Exn AttributeError ''object has no attribute get'')"

fun extract_features :: "(pyval \<times> pyval) list \<Rightarrow> exn + ndarray \<times> pyval list" where
  "extract_features [] = Inr ([], [])"
| "extract_features (row # training_data) =
     (case row_features row of
        Inl e \<Rightarrow> Inl e
      | Inr (feature_vec, target_interval) \<Rightarrow>
         (case extract_features training_data of
            Inl e \<Rightarrow> Inl e
          | Inr (features, targets) \<Rightarrow>
              Inr (feature_vec # features, target_interval # targets)))"

text \<open>
  \<^verbatim>\<open>train_test_split(X, y, test_size=0.2, random_state=42)\<close>: the test part has
  \<open>\<lceil>0.2 n\<rceil>\<close> samples, the first of the permutation, the training part the rest; an
  empty training part is refused.
\<close>

definition n_test :: "nat \<Rightarrow> nat" where
  "n_test n = (n + 4) div 5"

definition test_indices :: "train_env \<Rightarrow> nat \<Rightarrow> nat list" where
  "test_indices env n = take (n_test n) (permutation env n)"

definition train_indices :: "train_env \<Rightarrow> nat \<Rightarrow> nat list" where
  "train_indices env n = take (n - n_test n) (drop (n_test n) (permutation env n))"

definition take_rows :: "'a list \<Rightarrow> nat list \<Rightarrow> 'a list" where
  "take_rows X idx = map ((!) X) idx"

definition train_test_split ::
  "train_env \<Rightarrow> ndarray \<Rightarrow> pyval list
     \<Rightarrow> exn + ndarray \<times> ndarray \<times> pyval list \<times> pyval list" where
  "train_test_split env X y =
     (let n = length X in
      if n - n_test n = 0
      then Inl (Exn ValueError ''the resulting train set will be empty'')
      else Inr (take_rows X (train_indices env n), take_rows X (test_indices env n),
                take_rows y (train_indices env n), take_rows y (test_indices env n)))"

text \<open>\<^verbatim>\<open>X.shape[1]\<close>\<close>

definition ncols :: "ndarray \<Rightarrow> nat" where
  "ncols X = (case X of [] \<Rightarrow> 0 | r # rs \<Rightarrow> length r)"

text \<open>Lines 212-236: the three writes, one after the other. The list holds the state of
  the directory after each write, in order.\<close>

definition save_bundle :: "files \<Rightarrow> keras_model \<Rightarrow> scaler_obj \<Rightarrow> pyval \<Rightarrow> files list" where
  "save_bundle fs model scaler metadata =
     (let fs1 = fs\<lparr>model_file := Some (Inr model)\<rparr>;
          fs2 = fs1\<lparr>scaler_file := Some (Inr scaler)\<rparr>;
          fs3 = fs2\<lparr>metadata_file := Some (Inr metadata)\<rparr>
      in [fs1, fs2, fs3])"

text \<open>Lines 168-247, after the threshold test. The result comes with the states of the
  directory the run has gone through (none when nothing was written).\<close>

definition train_steps ::
  "train_env \<Rightarrow> files \<Rightarrow> (pyval \<times> pyval) list \<Rightarrow> (exn + (string \<times> pyval) list) \<times> files list" where
  "train_steps env fs rows =
     (case extract_features rows of
        Inl e \<Rightarrow> (Inl e, [])
      | Inr (X, y) \<Rightarrow>
     (case train_test_split env X y of
        Inl e \<Rightarrow> (Inl e, [])
      | Inr (X_train, X_val, y_train, y_val) \<Rightarrow>
     (case scaler_fit env X_train of
        Inl e \<Rightarrow> (Inl e, [])
      | Inr scaler \<Rightarrow>
     (case scaler X_train of
        Inl e \<Rightarrow> (Inl e, [])
      | Inr X_train_scaled \<Rightarrow>
     (case scaler X_val of
        Inl e \<Rightarrow> (Inl e, [])
      | Inr X_val_scaled \<Rightarrow>
     (case fit_model env X_train_scaled y_train X_val_scaled y_val of
        Inl e \<Rightarrow> (Inl e, [])
      | Inr (model, val_loss, val_mae) \<Rightarrow>
     (let metadata = VDict
            [(''trained_at'', VStr (now_isoformat env)),
             (''training_samples'', num (real (length X_train))),
             (''validation_samples'', num (real (length X_val))),
             (''val_mae'', VNum val_mae),
             (''val_loss'', VNum val_loss),
             (''model_version'', VStr ''1.0''),
             (''feature_count'', num (real (ncols X_train_scaled)))]
      in (Inr [(''success'', VBool True),
               (''training_samples'', num (real (length X_train))),
               (''validation_samples'', num (real (length X_val))),
               (''val_mae'', VNum val_mae),
               (''val_loss'', VNum val_loss),
               (''model_path'', VStr (model_path env))],
          save_bundle fs model scaler metadata))))))))"

definition train_nsm_model ::
  "train_env \<Rightarrow> int \<Rightarrow> files \<Rightarrow> (exn + (string \<times> pyval) list) \<times> files list" where
  "train_nsm_model env min_samples fs =
     (case database_url env of
        None \<Rightarrow> (Inl (Exn ValueError ''DATABASE_URL not set''), [])
      | Some url \<Rightarrow>
         if url = [] then (Inl (Exn ValueError ''DATABASE_URL not set''), [])
         else
          (case fetch_rows env of
             Inl e \<Rightarrow> (Inl e, [])
           | Inr rows \<Rightarrow>
               if int (length rows) < min_samples
               then (Inr [(''success'', VBool False),
                          (''error'', VStr (''Not enough training data. Need ''
                              @ str_int min_samples @ '', have ''
                              @ str_int (int (length rows)))),
                          (''samples_collected'', num (real (length rows))),
                          (''samples_needed'', num (real_of_int min_samples))],
                     [])
               else train_steps env fs rows))"

text \<open>The directory a run leaves behind.\<close>

definition final_files :: "files \<Rightarrow> files list \<Rightarrow> files" where
  "final_files fs trace = (case rev trace of [] \<Rightarrow> fs | st # sts \<Rightarrow> st)"

section \<open>The scenario of the specification\<close>

text \<open>
  Modelled from the spec: \<^verbatim>\<open>StandardScaler.transform\<close> of scikit-learn, which is
  not under src/. Section 4.2: \<open>transform(X)\<close> applies \<open>(x - location) / scale\<close> per
  column and fails with a ShapeMismatch error if a vector's width differs from the
  fitted width.
\<close>

fun scale_row :: "real list \<Rightarrow> real list \<Rightarrow> pyval list \<Rightarrow> pyval list option" where
  "scale_row [] [] [] = Some []"
| "scale_row (m # ms) (s # ss) (v # vs) =
     (case as_number v of
        None \<Rightarrow> None
      | Some x \<Rightarrow>
         (case scale_row ms ss vs of
            None \<Rightarrow> None
          | Some r \<Rightarrow> Some (VNum (fdiv (fsub x (Fin m)) (Fin s)) # r)))"
| "scale_row ms ss vs = None"

fun standard_scaler :: "real list \<Rightarrow> real list \<Rightarrow> scaler_obj" where
  "standard_scaler ms ss [] = Inr []"
| "standard_scaler ms ss (row # rows) =
     (case scale_row ms ss row of
        None \<Rightarrow> Inl (Exn ValueError ''ShapeMismatch'')
      | Some r \<Rightarrow>
         (case standard_scaler ms ss rows of Inl e \<Rightarrow> Inl e | Inr rs \<Rightarrow> Inr (r # rs)))"

text \<open>The scaler of the scenario: mean 0 and scale 1 in each of the 17 columns.\<close>

definition identity_scaler :: scaler_obj where
  "identity_scaler = standard_scaler (replicate 17 0) (replicate 17 1)"

text \<open>The model of the scenario: it returns feature 8 of its one row unchanged.\<close>

definition feature8_model :: keras_model where
  "feature8_model X =
     (case X of
        [row] \<Rightarrow>
          (if 7 < length row
           then (case as_number (row ! 7) of
                   Some f \<Rightarrow> Inr f
                 | None \<Rightarrow> Inl (Exn ValueError ''not a number''))
           else Inl (Exn ValueError ''shape''))
      | _ \<Rightarrow> Inl (Exn ValueError ''shape''))"

definition scenario_env :: env where
  "scenario_env = \<lparr>model_dir = ''models''\<rparr>"

definition scenario_metadata :: pyval where
  "scenario_metadata =
     VDict [(''model_version'', VStr ''1.0''), (''trained_at'', VStr ''2025-01-01T00:00:00'')]"

definition scenario_files :: files where
  "scenario_files =
     \<lparr>model_file = Some (Inr feature8_model),
      scaler_file = Some (Inr identity_scaler),
      metadata_file = Some (Inr scenario_metadata)\<rparr>"

definition no_files :: files where
  "no_files = \<lparr>model_file = None, scaler_file = None, metadata_file = None\<rparr>"

text \<open>A network whose output is not a number, as one with diverged weights gives.\<close>

definition nan_model :: keras_model where
  "nan_model X = Inr NaN"

text \<open>
  Modelled from the spec: \<^verbatim>\<open>StandardScaler.fit\<close> of scikit-learn, which is not
  under src/. Section 4.2: \<open>fit(X)\<close> computes per-column location and scale statistics
  (mean and standard deviation) of a batch of feature vectors; a column without spread
  gets scale 1.
\<close>

fun finite_row :: "pyval list \<Rightarrow> real list option" where
  "finite_row [] = Some []"
| "finite_row (v # vs) =
     (case as_number v of
        Some (Fin x) \<Rightarrow> (case finite_row vs of None \<Rightarrow> None | Some xs \<Rightarrow> Some (x # xs))
      | _ \<Rightarrow> None)"

definition column_mean :: "real list \<Rightarrow> real" where
  "column_mean xs = sum_list xs / real (length xs)"

definition column_scale :: "real list \<Rightarrow> real" where
  "column_scale xs =
     (let m = column_mean xs;
          var = sum_list (map (\<lambda>x. (x - m) * (x - m)) xs) / real (length xs)
      in if var = 0 then 1 else sqrt var)"

definition standard_scaler_fit :: "ndarray \<Rightarrow> exn + scaler_obj" where
  "standard_scaler_fit X =
     (case those (map finite_row X) of
        None \<Rightarrow> Inl (Exn ValueError ''could not convert to float'')
      | Some rows \<Rightarrow>
          Inr (standard_scaler (map column_mean (transpose rows))
                 (map column_scale (transpose rows))))"

text \<open>A training run to evaluate: the rows are given, the permutation counts down, the
  network is the one of the scenario.\<close>

definition down_from :: "nat \<Rightarrow> nat list" where
  "down_from n = rev [0..<n]"

definition example_row :: "real \<Rightarrow> pyval \<times> pyval" where
  "example_row ci =
     (VDict [(''current_interval'', num ci)], VDict [(''next_interval'', num (ci * 2))])"

definition scenario_train_env :: "(pyval \<times> pyval) list \<Rightarrow> train_env" where
  "scenario_train_env rows =
     \<lparr>model_dir = ''models'',
      database_url = Some ''postgresql://db/nsm'',
      fetch_rows = Inr rows,
      permutation = down_from,
      scaler_fit = standard_scaler_fit,
      fit_model = (\<lambda>X_train y_train X_val y_val. Inr (feature8_model, Fin 4, Fin 2)),
      now_isoformat = ''2025-01-01T00:00:00''\<rparr>"

section \<open>Notions the properties are stated with\<close>

text \<open>The keys the builder reads and the vector of the defaults.\<close>

definition feature_keys :: "string list" where
  "feature_keys =
     [''item_difficulty'', ''user_mastery'', ''days_since_last_review'',
      ''response_time_seconds'', ''quality_rating'', ''repetition_count'',
      ''current_ease_factor'', ''current_interval'', ''hour_of_day'', ''day_of_week'',
      ''time_since_learning_start'', ''previous_interval'', ''learning_pace'',
      ''cluster_mastery'', ''is_quiz'', ''quiz_score'', ''quiz_questions_count'']"

definition default_vector :: "pyval list" where
  "default_vector =
     [num 0.5, num 0.5, num 0, num 5, num 3, num 0, num 2.5, num 1, num 12, num 3,
      num 0, num 0, num 1, num 0.5, num 0, num 0, num 0]"

text \<open>What Python can hash among the values of JSON: everything but lists and dicts.\<close>

fun hashable :: "pyval \<Rightarrow> bool" where
  "hashable (VList xs) = False"
| "hashable (VDict kvs) = False"
| "hashable v = True"

text \<open>The confidence in the words of the specification (section 4.5).\<close>

definition clamp :: "real \<Rightarrow> real \<Rightarrow> real \<Rightarrow> real" where
  "clamp x lo hi = min hi (max lo x)"

definition spec_confidence :: "real \<Rightarrow> real \<Rightarrow> real" where
  "spec_confidence predicted current_interval =
     (let typical = current_interval * 2
      in clamp (1 - 0.5 * \<bar>predicted - typical\<bar> / typical) 0.5 1.0)"

text \<open>Which of the three files a reader of the directory finds: model, scaler, metadata.\<close>

definition present :: "files \<Rightarrow> bool \<times> bool \<times> bool" where
  "present st = (model_file st \<noteq> None, scaler_file st \<noteq> None, metadata_file st \<noteq> None)"

section \<open>Evaluating the scenario\<close>

lemma replicate17: "replicate 17 x = [x, x, x, x, x, x, x, x, x, x, x, x, x, x, x, x, x]"
  by (simp add: eval_nat_numeral)

lemma feature_vector_current_interval:
  "feature_vector [''current_interval'' \<mapsto> v] = Inr
     [num 0.5, num 0.5, num 0, num 5, num 3, num 0, num 2.5, v, num 12, num 3,
      num 0, num 0, num 1, num 0.5, num 0, num 0, num 0]"
  by (simp add: feature_vector_def dict_get_def)

lemma identity_scaler_row:
  "identity_scaler
     [[num a1, num a2, num a3, num a4, num a5, num a6, num a7, num a8, num a9, num a10,
       num a11, num a12, num a13, num a14, num a15, num a16, num a17]] = Inr
     [[num a1, num a2, num a3, num a4, num a5, num a6, num a7, num a8, num a9, num a10,
       num a11, num a12, num a13, num a14, num a15, num a16, num a17]]"
  by (simp add: identity_scaler_def replicate17)

lemma load_scenario:
  "load_model scenario_env scenario_files empty_cache =
     (Inr (feature8_model, Some identity_scaler, scenario_metadata),
      \<lparr>cache_model = Some feature8_model, cache_scaler = Some identity_scaler,
       cache_metadata = scenario_metadata\<rparr>)"
  by (simp add: load_model_def empty_cache_def scenario_files_def)

lemmas scenario_simps =
  predict_interval_def predict_interval_try_def predict_steps_def
  feature_vector_current_interval identity_scaler_row
  confidence_of_def py_float_sub_def py_truediv_def py_max_def scenario_metadata_def
  Let_def dict_get_def handle_exn_def

lemma scenario_paths:
  "model_path scenario_env = ''models/nsm_model.keras''"
  "scaler_path scenario_env = ''models/scaler.pkl''"
  "metadata_path scenario_env = ''models/metadata.json''"
  by (simp_all add: model_path_def scaler_path_def metadata_path_def scenario_env_def)

lemma str_int_500: "str_int 500 = ''500''"
  by (simp add: str_int_def digit_def)

lemma str_int_10: "str_int 10 = ''10''"
  by (simp add: str_int_def digit_def)

lemma down_from_2: "down_from 2 = [1, 0]"
  by (simp add: down_from_def eval_nat_numeral upt_rec)

lemma train_indices_2: "train_indices (scenario_train_env rows) (Suc (Suc 0)) = [0]"
  using down_from_2
  by (simp add: train_indices_def n_test_def scenario_train_env_def numeral_2_eq_2)

lemma test_indices_2: "test_indices (scenario_train_env rows) (Suc (Suc 0)) = [1]"
  using down_from_2
  by (simp add: test_indices_def n_test_def scenario_train_env_def numeral_2_eq_2)

lemma extract_two:
  "extract_features [example_row a, example_row b] = Inr
     ([[num 0.5, num 0.5, num 0, num 5, num 3, num 0, num 2.5, num a, num 12, num 3,
        num 0, num 0, num 1, num 0.5, num 0, num 0, num 0],
       [num 0.5, num 0.5, num 0, num 5, num 3, num 0, num 2.5, num b, num 12, num 3,
        num 0, num 0, num 1, num 0.5, num 0, num 0, num 0]],
      [num (a * 2), num (b * 2)])"
  by (simp add: example_row_def feature_vector_current_interval dict_get_def)

lemma fit_one_row:
  "standard_scaler_fit
     [[num a1, num a2, num a3, num a4, num a5, num a6, num a7, num a8, num a9, num a10,
       num a11, num a12, num a13, num a14, num a15, num a16, num a17]] =
   Inr (standard_scaler
     [a1, a2, a3, a4, a5, a6, a7, a8, a9, a10, a11, a12, a13, a14, a15, a16, a17]
     [1, 1, 1, 1, 1, 1, 1, 1, 1, 1, 1, 1, 1, 1, 1, 1, 1])"
  by (simp add: standard_scaler_fit_def column_mean_def column_scale_def Let_def)

lemma scenario_train_env_fields:
  "database_url (scenario_train_env rows) = Some ''postgresql://db/nsm''"
  "fetch_rows (scenario_train_env rows) = Inr rows"
  "scaler_fit (scenario_train_env rows) = standard_scaler_fit"
  "fit_model (scenario_train_env rows) =
     (\<lambda>X_train y_train X_val y_val. Inr (feature8_model, Fin 4, Fin 2))"
  "now_isoformat (scenario_train_env rows) = ''2025-01-01T00:00:00''"
  "model_path (scenario_train_env rows) = ''models/nsm_model.keras''"
  by (simp_all add: scenario_train_env_def model_path_def)

text \<open>The run on two rows with threshold 2: the second row is the validation example,
  the scaler is fitted on the first.\<close>

lemma scenario_run:
  "train_nsm_model (scenario_train_env [example_row a, example_row b]) 2 fs =
     (Inr [(''success'', VBool True),
           (''training_samples'', num 1),
           (''validation_samples'', num 1),
           (''val_mae'', num 2),
           (''val_loss'', num 4),
           (''model_path'', VStr ''models/nsm_model.keras'')],
      save_bundle fs feature8_model
        (standard_scaler [0.5, 0.5, 0, 5, 3, 0, 2.5, a, 12, 3, 0, 0, 1, 0.5, 0, 0, 0]
           [1, 1, 1, 1, 1, 1, 1, 1, 1, 1, 1, 1, 1, 1, 1, 1, 1])
        (VDict [(''trained_at'', VStr ''2025-01-01T00:00:00''),
                (''training_samples'', num 1),
                (''validation_samples'', num 1),
                (''val_mae'', num 2),
                (''val_loss'', num 4),
                (''model_version'', VStr ''1.0''),
                (''feature_count'', num 17)]))"
  by (simp add: train_nsm_model_def scenario_train_env_fields train_steps_def extract_two
      train_test_split_def train_indices_2 test_indices_2 n_test_def take_rows_def
      fit_one_row ncols_def Let_def
      del: extract_features.simps)

section \<open>Prediction service: properties\<close>

lemma predict_steps_result:
  assumes "predict_steps model scaler metadata fd = Inr r"
  shows "\<exists>raw k version trained.
           confidence_of (np_clip raw 1 180) (dict_get fd ''current_interval'' (num 1)) = Inr k
           \<and> r = [(''success'', VBool True),
                  (''predicted_interval'', VNum (np_clip raw 1 180)),
                  (''confidence'', VNum k),
                  (''model_version'', version),
                  (''trained_at'', trained),
                  (''method'', VStr ''neural_network'')]"
  using assms
  by (auto simp: predict_steps_def Let_def split: sum.splits)

lemma predict_steps_success:
  "predict_steps model scaler metadata fd = Inr r \<Longrightarrow> map_of r ''success'' = Some (VBool True)"
  using predict_steps_result [of model scaler metadata fd r] by auto

lemma handle_exn_failure:
  "map_of (handle_exn e) ''success'' = Some (VBool False)
   \<and> map_of (handle_exn e) ''fallback_to_rules'' = Some (VBool True)
   \<and> map_of (handle_exn e) ''confidence'' = None"
  by (simp add: handle_exn_def)

lemma predict_interval_cases:
  assumes "predict_interval env fs c fd = (r, c')"
  shows "(\<exists>e. r = handle_exn e)
         \<or> (\<exists>model scaler metadata. predict_steps model scaler metadata fd = Inr r)"
  using assms
  by (auto simp: predict_interval_def predict_interval_try_def
      split: prod.splits sum.splits)

text \<open>
  C1. \<^verbatim>\<open>predict_interval\<close> always returns a result dict. Whatever the body of the
  \<^verbatim>\<open>try\<close> raises is turned into \<^verbatim>\<open>{success: false, error, fallback_to_rules: true}\<close>;
  a result that is not of this shape carries \<^verbatim>\<open>success: true\<close>. With no model file
  and nothing cached the result is the failure with the message of \<^verbatim>\<open>load_model\<close>.
\<close>

theorem predict_interval_never_raises:
  "(case predict_interval_try env fs c fd of
      (Inl e, c') \<Rightarrow>
        predict_interval env fs c fd =
          ([(''success'', VBool False),
            (''error'', VStr (if exn_cls e = FileNotFoundError then exn_str e
                              else ''Prediction error: '' @ exn_str e)),
            (''fallback_to_rules'', VBool True)], c')
    | (Inr r, c') \<Rightarrow>
        predict_interval env fs c fd = (r, c') \<and> map_of r ''success'' = Some (VBool True))
   \<and> (cache_model c = None \<and> model_file fs = None \<longrightarrow>
        predict_interval env fs c fd =
          ([(''success'', VBool False),
            (''error'', VStr (''Model not found at '' @ model_path env
                              @ ''. Train model first.'')),
            (''fallback_to_rules'', VBool True)], c))"
proof -
  have missing: "cache_model c = None \<Longrightarrow> model_file fs = None \<Longrightarrow>
        predict_interval env fs c fd =
          ([(''success'', VBool False),
            (''error'', VStr (''Model not found at '' @ model_path env
                              @ ''. Train model first.'')),
            (''fallback_to_rules'', VBool True)], c)"
    by (simp add: predict_interval_def predict_interval_try_def load_model_def handle_exn_def)
  have ok: "predict_interval_try env fs c fd = (Inr r, c')
        \<Longrightarrow> map_of r ''success'' = Some (VBool True)" for r c'
    by (auto simp: predict_interval_try_def split: prod.splits sum.splits
        dest: predict_steps_success)
  show ?thesis
    using missing ok
    by (auto simp: predict_interval_def handle_exn_def split: prod.splits sum.splits)
qed

theorem predict_interval_never_raises_witness:
  "cache_model empty_cache = None \<and> model_file no_files = None
   \<and> predict_interval scenario_env no_files empty_cache Map.empty =
       ([(''success'', VBool False),
         (''error'', VStr ''Model not found at models/nsm_model.keras. Train model first.''),
         (''fallback_to_rules'', VBool True)], empty_cache)"
  using predict_interval_never_raises [of scenario_env no_files empty_cache Map.empty]
  by (simp add: empty_cache_def no_files_def scenario_paths)

subsection \<open>Confidence\<close>

lemma np_clip_cases:
  "np_clip raw 1 180 = NaN \<or> (\<exists>x. np_clip raw 1 180 = Fin x \<and> 1 \<le> x \<and> x \<le> 180)"
  by (cases raw) auto

lemma py_max_fin: "py_max (Fin a) (Fin b) = Fin (max a b)"
  by (auto simp: py_max_def max_def)

lemma confidence_of_finite:
  assumes "0 < ci"
  shows "confidence_of (Fin x) (num ci) = Inr (Fin (spec_confidence x ci))"
proof -
  define u where "u = \<bar>x - ci * 2\<bar> / (ci * 2)"
  have nz: "ci * 2 \<noteq> 0" using assms by simp
  have u0: "0 \<le> u" using assms by (simp add: u_def)
  have code: "confidence_of (Fin x) (num ci) = Inr (Fin (max (1 / 2) (1 - u * (1 / 2))))"
    using nz
    by (simp add: confidence_of_def py_float_sub_def py_truediv_def py_max_fin u_def)
  have "spec_confidence x ci = min 1 (max (1 / 2) (1 - u * (1 / 2)))"
    by (simp add: spec_confidence_def clamp_def Let_def u_def)
  also have "\<dots> = max (1 / 2) (1 - u * (1 / 2))"
    using u0 by (auto simp: min_def max_def)
  finally show ?thesis using code by simp
qed

lemma confidence_of_nan:
  assumes "0 < ci"
  shows "confidence_of NaN (num ci) = Inr (Fin (1 / 2))"
  using assms
  by (simp add: confidence_of_def py_float_sub_def py_truediv_def py_max_def)

lemma confidence_of_zero:
  "confidence_of p (num 0) = Inl (Exn ZeroDivisionError ''float division by zero'')"
  by (simp add: confidence_of_def py_float_sub_def py_truediv_def)

lemma spec_confidence_range:
  "1 / 2 \<le> spec_confidence x ci \<and> spec_confidence x ci \<le> 1"
  by (simp add: spec_confidence_def clamp_def Let_def)

text \<open>
  C2, as the claim states it: with \<^verbatim>\<open>current_interval = 0\<close> a guard gives confidence
  0.5. The code has no guard. On the scenario bundle the division raises, the handler
  answers, and the result has no confidence at all.
\<close>

theorem zero_interval_falls_back:
  "fst (predict_interval scenario_env scenario_files empty_cache
          [''current_interval'' \<mapsto> num 0]) =
     [(''success'', VBool False),
      (''error'', VStr ''Prediction error: float division by zero''),
      (''fallback_to_rules'', VBool True)]
   \<and> map_of (fst (predict_interval scenario_env scenario_files empty_cache
                    [''current_interval'' \<mapsto> num 0])) ''confidence'' \<noteq> Some (num 0.5)"
  by (simp add: scenario_simps load_scenario feature8_model_def)

text \<open>
  C2, amended. For a numeric \<^verbatim>\<open>current_interval\<close> \<open>ci\<close>: when \<open>ci > 0\<close>, a successful
  result has a confidence in [0.5, 1.0], and when the clipped prediction is a finite
  \<open>x\<close> it is the clamp of the specification at \<open>x\<close> and \<open>ci\<close>; when \<open>ci = 0\<close> the request
  does not raise and answers \<^verbatim>\<open>{success: false, fallback_to_rules: true}\<close> without a
  confidence.
\<close>

theorem confidence_for_positive_interval:
  assumes "dict_get fd ''current_interval'' (num 1) = num ci"
    and "predict_interval env fs c fd = (r, c')"
  shows "(0 < ci \<and> map_of r ''success'' = Some (VBool True) \<longrightarrow>
            (\<exists>p k. map_of r ''predicted_interval'' = Some (VNum p)
               \<and> map_of r ''confidence'' = Some (num k)
               \<and> 1 / 2 \<le> k \<and> k \<le> 1
               \<and> (\<forall>x. p = Fin x \<longrightarrow> k = spec_confidence x ci)))
       \<and> (ci = 0 \<longrightarrow>
            map_of r ''success'' = Some (VBool False)
            \<and> map_of r ''fallback_to_rules'' = Some (VBool True)
            \<and> map_of r ''confidence'' = None)"
proof -
  consider (failed) e where "r = handle_exn e"
    | (ok) model scaler metadata where "predict_steps model scaler metadata fd = Inr r"
    using predict_interval_cases [OF assms(2)] by blast
  then show ?thesis
  proof cases
    case failed
    then show ?thesis by (simp add: handle_exn_failure)
  next
    case ok
    then obtain raw k version trained where
      k: "confidence_of (np_clip raw 1 180) (num ci) = Inr k"
      and r: "r = [(''success'', VBool True),
                  (''predicted_interval'', VNum (np_clip raw 1 180)),
                  (''confidence'', VNum k),
                  (''model_version'', version),
                  (''trained_at'', trained),
                  (''method'', VStr ''neural_network'')]"
      using predict_steps_result [of model scaler metadata fd r] assms(1) by auto
    have nonzero: "ci \<noteq> 0"
      using k confidence_of_zero by auto
    have "0 < ci \<Longrightarrow> \<exists>k'. k = Fin k' \<and> 1 / 2 \<le> k' \<and> k' \<le> 1
              \<and> (\<forall>x. np_clip raw 1 180 = Fin x \<longrightarrow> k' = spec_confidence x ci)"
    proof -
      assume pos: "0 < ci"
      from np_clip_cases [of raw] show ?thesis
      proof
        assume n: "np_clip raw 1 180 = NaN"
        then have "k = Fin (1 / 2)" using k confidence_of_nan [OF pos] by simp
        then show ?thesis using n by (intro exI [of _ "1 / 2"]) simp
      next
        assume "\<exists>x. np_clip raw 1 180 = Fin x \<and> 1 \<le> x \<and> x \<le> 180"
        then obtain x where x: "np_clip raw 1 180 = Fin x" by blast
        then have "k = Fin (spec_confidence x ci)"
          using k confidence_of_finite [OF pos, of x] by simp
        then show ?thesis using x spec_confidence_range [of x ci] by simp
      qed
    qed
    then show ?thesis using nonzero r by auto
  qed
qed

theorem confidence_for_positive_interval_witness:
  "dict_get [''current_interval'' \<mapsto> num 10] ''current_interval'' (num 1) = num 10
   \<and> map_of (fst (predict_interval scenario_env scenario_files empty_cache
                    [''current_interval'' \<mapsto> num 10])) ''success'' = Some (VBool True)
   \<and> map_of (fst (predict_interval scenario_env scenario_files empty_cache
                    [''current_interval'' \<mapsto> num 10])) ''confidence'' =
        Some (num (spec_confidence 10 10))
   \<and> dict_get [''current_interval'' \<mapsto> num 0] ''current_interval'' (num 1) = num 0
   \<and> map_of (fst (predict_interval scenario_env scenario_files empty_cache
                    [''current_interval'' \<mapsto> num 0])) ''fallback_to_rules'' = Some (VBool True)"
proof -
  have ten: "dict_get [''current_interval'' \<mapsto> num 10] ''current_interval'' (num 1) = num 10"
    by (simp add: dict_get_def)
  have zero: "dict_get [''current_interval'' \<mapsto> num 0] ''current_interval'' (num 1) = num 0"
    by (simp add: dict_get_def)
  have run: "predict_interval scenario_env scenario_files empty_cache fd =
      (fst (predict_interval scenario_env scenario_files empty_cache fd),
       snd (predict_interval scenario_env scenario_files empty_cache fd))" for fd
    by simp
  have ok: "map_of (fst (predict_interval scenario_env scenario_files empty_cache
                    [''current_interval'' \<mapsto> num 10])) ''success'' = Some (VBool True)"
    by (simp add: scenario_simps load_scenario feature8_model_def)
  show ?thesis
    using confidence_for_positive_interval [OF ten run]
      confidence_for_positive_interval [OF zero run] ten zero ok
    by (simp add: scenario_simps load_scenario feature8_model_def)
qed

subsection \<open>The scenario and the clip\<close>

text \<open>
  C4. With the identity scaler and the model that returns feature 8, predicting
  \<^verbatim>\<open>{current_interval: 10}\<close> gives \<^verbatim>\<open>predicted_interval = 10\<close> and
  \<^verbatim>\<open>confidence = 0.75\<close>.
\<close>

theorem end_to_end_scenario:
  "fst (predict_interval scenario_env scenario_files empty_cache
          [''current_interval'' \<mapsto> num 10]) =
     [(''success'', VBool True),
      (''predicted_interval'', num 10),
      (''confidence'', num 0.75),
      (''model_version'', VStr ''1.0''),
      (''trained_at'', VStr ''2025-01-01T00:00:00''),
      (''method'', VStr ''neural_network'')]"
  by (simp add: scenario_simps load_scenario feature8_model_def)

text \<open>
  C6. The predicted interval of a successful result is meant to lie in [1, 180]. When
  the raw output of the network is NaN the clip lets it through: the request succeeds
  and \<^verbatim>\<open>predicted_interval\<close> is NaN.
\<close>

theorem nan_output_not_clipped:
  "fst (predict_interval scenario_env (scenario_files\<lparr>model_file := Some (Inr nan_model)\<rparr>)
          empty_cache [''current_interval'' \<mapsto> num 10]) =
     [(''success'', VBool True),
      (''predicted_interval'', VNum NaN),
      (''confidence'', num 0.5),
      (''model_version'', VStr ''1.0''),
      (''trained_at'', VStr ''2025-01-01T00:00:00''),
      (''method'', VStr ''neural_network'')]"
  by (simp add: scenario_simps load_model_def empty_cache_def scenario_files_def nan_model_def)

subsection \<open>Feature vector\<close>

lemma pace_code_hashable:
  "hashable v \<Longrightarrow> v \<noteq> VStr ''fast'' \<Longrightarrow> v \<noteq> VStr ''slow'' \<Longrightarrow> pace_code v = Inr (num 1)"
  by (cases v) auto

lemma feature_vector_all_missing:
  "\<forall>k\<in>set feature_keys. fd k = None \<Longrightarrow> feature_vector fd = Inr default_vector"
  by (simp add: feature_keys_def feature_vector_def dict_get_def default_vector_def)

lemma feature_vector_frame:
  "\<forall>k\<in>set feature_keys. fd k = fd' k \<Longrightarrow> feature_vector fd = feature_vector fd'"
  by (simp add: feature_keys_def feature_vector_def dict_get_def split: sum.splits)

text \<open>
  C7, as the claim states it: any unknown pace value maps to 1. A pace that is a list is
  not hashed by the lookup: the builder raises and there is no vector.
\<close>

theorem unhashable_pace_raises:
  "feature_vector [''learning_pace'' \<mapsto> VList []] =
     Inl (Exn TypeError (''unhashable type: '' @ quoted ''list''))"
  by (simp add: feature_vector_def dict_get_def)

text \<open>
  C7, amended. A mapping without any of the 17 keys gives the vector of the defaults;
  the pace maps fast to 2, medium to 1, slow to 0, and every other hashable value (a
  string, a number, a boolean, null) to 1; when the pace of the mapping (medium when
  absent) is hashable the builder returns 17 values, the 13th being that code; and the
  vector depends on the values at the 17 keys only.
\<close>

theorem feature_vector_defaults_and_pace:
  "((\<forall>k\<in>set feature_keys. fd k = None) \<longrightarrow> feature_vector fd = Inr default_vector)
   \<and> pace_code (VStr ''fast'') = Inr (num 2)
   \<and> pace_code (VStr ''medium'') = Inr (num 1)
   \<and> pace_code (VStr ''slow'') = Inr (num 0)
   \<and> (hashable v \<and> v \<noteq> VStr ''fast'' \<and> v \<noteq> VStr ''slow'' \<longrightarrow> pace_code v = Inr (num 1))
   \<and> (hashable (dict_get fd ''learning_pace'' (VStr ''medium'')) \<longrightarrow>
        (\<exists>fv. feature_vector fd = Inr fv \<and> length fv = 17
           \<and> Inr (fv ! 12) = pace_code (dict_get fd ''learning_pace'' (VStr ''medium''))))
   \<and> ((\<forall>k\<in>set feature_keys. fd k = fd' k) \<longrightarrow> feature_vector fd = feature_vector fd')"
proof -
  have pace: "hashable w \<Longrightarrow> \<exists>p. pace_code w = Inr p" for w
    by (cases w) auto
  have "hashable (dict_get fd ''learning_pace'' (VStr ''medium'')) \<Longrightarrow>
        (\<exists>fv. feature_vector fd = Inr fv \<and> length fv = 17
           \<and> Inr (fv ! 12) = pace_code (dict_get fd ''learning_pace'' (VStr ''medium'')))"
  proof -
    assume "hashable (dict_get fd ''learning_pace'' (VStr ''medium''))"
    then obtain p where p: "pace_code (dict_get fd ''learning_pace'' (VStr ''medium'')) = Inr p"
      using pace by blast
    show ?thesis
      by (simp add: feature_vector_def p)
  qed
  then show ?thesis
    using feature_vector_all_missing [of fd] feature_vector_frame [of fd fd']
      pace_code_hashable [of v]
    by simp
qed

theorem feature_vector_defaults_and_pace_witness:
  "feature_vector Map.empty = Inr default_vector
   \<and> hashable (VStr ''turbo'') \<and> pace_code (VStr ''turbo'') = Inr (num 1)
   \<and> hashable VNone \<and> pace_code VNone = Inr (num 1)
   \<and> feature_vector [''user_id'' \<mapsto> VStr ''u1''] = feature_vector Map.empty"
  using feature_vector_defaults_and_pace
      [of Map.empty "VStr ''turbo''" "[''user_id'' \<mapsto> VStr ''u1'']"]
    feature_vector_defaults_and_pace [of "[''user_id'' \<mapsto> VStr ''u1'']" VNone Map.empty]
  by (simp add: feature_keys_def)

subsection \<open>The cache\<close>

lemma load_model_cached:
  "cache_model c = Some m \<Longrightarrow> load_model env fs c = (Inr (m, cache_scaler c, cache_metadata c), c)"
  by (simp add: load_model_def)

lemma load_model_complete:
  "cache_model c = None \<Longrightarrow> model_file fs = Some (Inr m) \<Longrightarrow> scaler_file fs = Some (Inr s)
   \<Longrightarrow> metadata_file fs = Some (Inr md)
   \<Longrightarrow> load_model env fs c =
        (Inr (m, Some s, md),
         c\<lparr>cache_model := Some m, cache_scaler := Some s, cache_metadata := md\<rparr>)"
  by (simp add: load_model_def)

text \<open>
  C9. Against a complete bundle that does not change, a second call with the same
  input returns the result of the first, whatever the cache held before the first.
\<close>

theorem repeated_prediction_identical:
  assumes "model_file fs = Some (Inr m)" and "scaler_file fs = Some (Inr s)"
    and "metadata_file fs = Some (Inr md)"
  shows "fst (predict_interval env fs (snd (predict_interval env fs c fd)) fd) =
         fst (predict_interval env fs c fd)"
proof (cases "cache_model c")
  case None
  let ?c = "c\<lparr>cache_model := Some m, cache_scaler := Some s, cache_metadata := md\<rparr>"
  have first: "load_model env fs c = (Inr (m, Some s, md), ?c)"
    using None assms by (rule load_model_complete)
  have second: "load_model env fs ?c = (Inr (m, Some s, md), ?c)"
    by (simp add: load_model_cached)
  have "snd (predict_interval env fs c fd) = ?c"
    by (simp add: predict_interval_def predict_interval_try_def first split: sum.splits)
  then show ?thesis
    by (simp add: predict_interval_def predict_interval_try_def first second)
next
  case (Some m')
  have "load_model env fs c = (Inr (m', cache_scaler c, cache_metadata c), c)"
    using Some by (rule load_model_cached)
  then have "snd (predict_interval env fs c fd) = c"
    by (simp add: predict_interval_def predict_interval_try_def split: sum.splits)
  then show ?thesis by simp
qed

theorem repeated_prediction_identical_witness:
  "model_file scenario_files = Some (Inr feature8_model)
   \<and> scaler_file scenario_files = Some (Inr identity_scaler)
   \<and> metadata_file scenario_files = Some (Inr scenario_metadata)
   \<and> fst (predict_interval scenario_env scenario_files
            (snd (predict_interval scenario_env scenario_files empty_cache
                    [''current_interval'' \<mapsto> num 10]))
            [''current_interval'' \<mapsto> num 10]) =
       fst (predict_interval scenario_env scenario_files empty_cache
              [''current_interval'' \<mapsto> num 10])"
proof -
  have files: "model_file scenario_files = Some (Inr feature8_model)"
    "scaler_file scenario_files = Some (Inr identity_scaler)"
    "metadata_file scenario_files = Some (Inr scenario_metadata)"
    by (simp_all add: scenario_files_def)
  show ?thesis
    using files repeated_prediction_identical [OF files] by simp
qed

text \<open>
  C10, as the claim states it: after a failed load that got past the model file, the
  next call returns the model with no scaler and no metadata. When it is the metadata
  file that is missing, the scaler has been cached too and the next call returns it.
\<close>

theorem metadata_missing_keeps_scaler:
  "fst (load_model scenario_env (scenario_files\<lparr>metadata_file := None\<rparr>) empty_cache) =
        Inl (Exn FileNotFoundError
               (''[Errno 2] No such file or directory: '' @ quoted ''models/metadata.json''))
   \<and> fst (load_model scenario_env (scenario_files\<lparr>metadata_file := None\<rparr>)
            (snd (load_model scenario_env (scenario_files\<lparr>metadata_file := None\<rparr>)
                    empty_cache))) =
        Inr (feature8_model, Some identity_scaler, VNone)
   \<and> fst (load_model scenario_env (scenario_files\<lparr>metadata_file := None\<rparr>)
            (snd (load_model scenario_env (scenario_files\<lparr>metadata_file := None\<rparr>)
                    empty_cache))) \<noteq>
        Inr (feature8_model, None, VNone)"
  by (simp add: load_model_def empty_cache_def scenario_files_def no_such_file_def
      scenario_paths)

text \<open>
  C10, amended. When \<^verbatim>\<open>load_model\<close>, starting from the empty cache, fails after
  loading the model file, the cache keeps the model: every later call returns without
  raising and without reading the files again, giving the model, the scaler if its
  file had been loaded (otherwise None) and None for the metadata.
\<close>

theorem partial_load_keeps_model:
  assumes "model_file fs = Some (Inr m)"
    and "load_model env fs empty_cache = (Inl e, c1)"
  shows "load_model env fs' c1 =
           (Inr (m, (case scaler_file fs of Some (Inr s) \<Rightarrow> Some s | _ \<Rightarrow> None), VNone), c1)"
  using assms
  by (auto simp: load_model_def empty_cache_def Let_def split: option.splits sum.splits)

theorem partial_load_keeps_model_witness:
  "model_file (scenario_files\<lparr>scaler_file := None\<rparr>) = Some (Inr feature8_model)
   \<and> fst (load_model scenario_env (scenario_files\<lparr>scaler_file := None\<rparr>) empty_cache) =
        Inl (Exn FileNotFoundError
               (''[Errno 2] No such file or directory: '' @ quoted ''models/scaler.pkl''))
   \<and> fst (load_model scenario_env scenario_files
            (snd (load_model scenario_env (scenario_files\<lparr>scaler_file := None\<rparr>) empty_cache))) =
        Inr (feature8_model, None, VNone)"
proof -
  have present_model: "model_file (scenario_files\<lparr>scaler_file := None\<rparr>) = Some (Inr feature8_model)"
    by (simp add: scenario_files_def)
  have failed: "load_model scenario_env (scenario_files\<lparr>scaler_file := None\<rparr>) empty_cache =
      (Inl (Exn FileNotFoundError
              (''[Errno 2] No such file or directory: '' @ quoted ''models/scaler.pkl'')),
       snd (load_model scenario_env (scenario_files\<lparr>scaler_file := None\<rparr>) empty_cache))"
    by (simp add: load_model_def empty_cache_def scenario_files_def no_such_file_def
        scenario_paths)
  have first: "fst (load_model scenario_env (scenario_files\<lparr>scaler_file := None\<rparr>) empty_cache) =
      Inl (Exn FileNotFoundError
             (''[Errno 2] No such file or directory: '' @ quoted ''models/scaler.pkl''))"
    by (subst failed) simp
  have second: "load_model scenario_env scenario_files
      (snd (load_model scenario_env (scenario_files\<lparr>scaler_file := None\<rparr>) empty_cache)) =
      (Inr (feature8_model, None, VNone),
       snd (load_model scenario_env (scenario_files\<lparr>scaler_file := None\<rparr>) empty_cache))"
    using partial_load_keeps_model [OF present_model failed, of scenario_files] by simp
  show ?thesis
    using present_model first second by simp
qed

section \<open>Training pipeline: properties\<close>

text \<open>
  C5. With fewer rows than the threshold the run returns
  \<^verbatim>\<open>{success: false, error, samples_collected, samples_needed}\<close> with the two counts,
  and writes nothing: the directory is as before.
\<close>

theorem insufficient_data_writes_nothing:
  assumes "database_url env = Some url" and "url \<noteq> []"
    and "fetch_rows env = Inr rows"
    and "int (length rows) < min_samples"
  shows "train_nsm_model env min_samples fs =
           (Inr [(''success'', VBool False),
                 (''error'', VStr (''Not enough training data. Need '' @ str_int min_samples
                     @ '', have '' @ str_int (int (length rows)))),
                 (''samples_collected'', num (real (length rows))),
                 (''samples_needed'', num (real_of_int min_samples))], [])
         \<and> final_files fs (snd (train_nsm_model env min_samples fs)) = fs"
  using assms by (simp add: train_nsm_model_def final_files_def)

theorem insufficient_data_writes_nothing_witness:
  "database_url (scenario_train_env (replicate 10 (example_row 3))) = Some ''postgresql://db/nsm''
   \<and> fetch_rows (scenario_train_env (replicate 10 (example_row 3))) =
        Inr (replicate 10 (example_row 3))
   \<and> int (length (replicate 10 (example_row 3))) < 500
   \<and> train_nsm_model (scenario_train_env (replicate 10 (example_row 3))) 500 scenario_files =
       (Inr [(''success'', VBool False),
             (''error'', VStr ''Not enough training data. Need 500, have 10''),
             (''samples_collected'', num 10),
             (''samples_needed'', num 500)], [])
   \<and> final_files scenario_files
        (snd (train_nsm_model (scenario_train_env (replicate 10 (example_row 3))) 500
                scenario_files)) = scenario_files"
  using insufficient_data_writes_nothing [of "scenario_train_env (replicate 10 (example_row 3))"
      "''postgresql://db/nsm''" "replicate 10 (example_row 3)" 500 scenario_files]
  by (simp add: scenario_train_env_fields str_int_500 str_int_10 final_files_def)

subsection \<open>What a successful run has done\<close>

lemma train_steps_success:
  assumes "train_steps env fs rows = (Inr r, trace)"
  shows "\<exists>X y s m md. extract_features rows = Inr (X, y)
           \<and> scaler_fit env (take_rows X (train_indices env (length X))) = Inr s
           \<and> trace = save_bundle fs m s md"
  using assms
  by (auto simp: train_steps_def train_test_split_def Let_def
      split: sum.splits prod.splits if_splits)

lemma train_nsm_model_success:
  assumes "train_nsm_model env min_samples fs = (Inr r, trace)"
    and "map_of r ''success'' = Some (VBool True)"
  shows "\<exists>rows. fetch_rows env = Inr rows \<and> train_steps env fs rows = (Inr r, trace)"
  using assms
  by (auto simp: train_nsm_model_def split: option.splits sum.splits if_splits)

text \<open>
  C3, as the claim states it: no reader ever sees the model file without its scaler
  and metadata. A run into an empty directory writes the model first: after that write
  the model file is there and the other two are not.
\<close>

theorem model_visible_before_scaler:
  "map present
     (snd (train_nsm_model (scenario_train_env [example_row 4, example_row 7]) 2 no_files)) =
     [(True, False, False), (True, True, False), (True, True, True)]"
  by (simp add: scenario_run save_bundle_def present_def no_files_def Let_def)

text \<open>
  C3, amended. A successful run writes the three files one after the other, model,
  scaler, metadata, each over the previous file of that name: the directory goes
  through a state with the new model beside the previous scaler and metadata, then one
  with the previous metadata only, and ends holding the new bundle.
\<close>

theorem bundle_written_in_three_steps:
  assumes "train_nsm_model env min_samples fs = (Inr r, trace)"
    and "map_of r ''success'' = Some (VBool True)"
  shows "\<exists>m s md. trace =
           [fs\<lparr>model_file := Some (Inr m)\<rparr>,
            fs\<lparr>model_file := Some (Inr m), scaler_file := Some (Inr s)\<rparr>,
            fs\<lparr>model_file := Some (Inr m), scaler_file := Some (Inr s),
               metadata_file := Some (Inr md)\<rparr>]"
proof -
  obtain rows where "train_steps env fs rows = (Inr r, trace)"
    using train_nsm_model_success [OF assms] by blast
  then obtain m s md where "trace = save_bundle fs m s md"
    using train_steps_success by blast
  then show ?thesis
    by (auto simp: save_bundle_def Let_def)
qed

theorem bundle_written_in_three_steps_witness:
  "map_of [(''success'', VBool True),
           (''training_samples'', num 1),
           (''validation_samples'', num 1),
           (''val_mae'', num 2),
           (''val_loss'', num 4),
           (''model_path'', VStr ''models/nsm_model.keras'')] ''success'' = Some (VBool True)
   \<and> length (snd (train_nsm_model (scenario_train_env [example_row 4, example_row 7]) 2
                     scenario_files)) = 3"
proof -
  have ok: "map_of [(''success'', VBool True),
           (''training_samples'', num 1),
           (''validation_samples'', num 1),
           (''val_mae'', num 2),
           (''val_loss'', num 4),
           (''model_path'', VStr ''models/nsm_model.keras'')] ''success'' = Some (VBool True)"
    by simp
  from bundle_written_in_three_steps [OF scenario_run [of 4 7 scenario_files] ok]
  obtain m s md where
    "snd (train_nsm_model (scenario_train_env [example_row 4, example_row 7]) 2
            scenario_files) =
       [scenario_files\<lparr>model_file := Some (Inr m)\<rparr>,
        scenario_files\<lparr>model_file := Some (Inr m), scaler_file := Some (Inr s)\<rparr>,
        scenario_files\<lparr>model_file := Some (Inr m), scaler_file := Some (Inr s),
           metadata_file := Some (Inr md)\<rparr>]"
    by (auto simp: scenario_run)
  then show ?thesis using ok by simp
qed

subsection \<open>The scaler and the validation rows\<close>

lemma extract_features_length:
  "extract_features rows = Inr (X, y) \<Longrightarrow> length X = length rows"
  by (induction rows arbitrary: X y) (auto split: sum.splits prod.splits)

lemma extract_features_nth:
  "extract_features rows = Inr (X, y) \<Longrightarrow> i < length rows
   \<Longrightarrow> \<exists>t. row_features (rows ! i) = Inr (X ! i, t)"
proof (induction rows arbitrary: X y i)
  case Nil
  then show ?case by simp
next
  case (Cons row rows)
  then show ?case
    by (cases i) (auto split: sum.splits prod.splits)
qed

lemma take_rows_agree:
  assumes "extract_features rows = Inr (X, y)" and "extract_features rows' = Inr (X', y')"
    and "length rows = length rows'"
    and "\<forall>i\<in>set idx. i < length rows \<and> rows ! i = rows' ! i"
  shows "take_rows X idx = take_rows X' idx"
proof -
  have "X ! i = X' ! i" if "i \<in> set idx" for i
  proof -
    have i: "i < length rows" "i < length rows'" "rows ! i = rows' ! i"
      using that assms(3,4) by auto
    obtain t where "row_features (rows ! i) = Inr (X ! i, t)"
      using extract_features_nth [OF assms(1) i(1)] by blast
    moreover obtain t' where "row_features (rows' ! i) = Inr (X' ! i, t')"
      using extract_features_nth [OF assms(2) i(2)] by blast
    ultimately show ?thesis using i(3) by simp
  qed
  then show ?thesis by (simp add: take_rows_def)
qed

text \<open>
  C8. Two successful runs over datasets of the same size that agree on the rows of the
  training split persist the same fitted scaler, whatever their validation rows are.
\<close>

theorem scaler_fitted_on_training_split_only:
  assumes "fetch_rows env = Inr rows" and "env' = env\<lparr>fetch_rows := Inr rows'\<rparr>"
    and "length rows = length rows'"
    and "\<forall>i\<in>set (train_indices env (length rows)). i < length rows \<and> rows ! i = rows' ! i"
    and "train_nsm_model env min_samples fs = (Inr r, trace)"
    and "map_of r ''success'' = Some (VBool True)"
    and "train_nsm_model env' min_samples fs' = (Inr r', trace')"
    and "map_of r' ''success'' = Some (VBool True)"
  shows "\<exists>s. scaler_file (final_files fs trace) = Some (Inr s)
           \<and> scaler_file (final_files fs' trace') = Some (Inr s)"
proof -
  have steps: "train_steps env fs rows = (Inr r, trace)"
    using train_nsm_model_success [OF assms(5,6)] assms(1) by auto
  have steps': "train_steps env' fs' rows' = (Inr r', trace')"
    using train_nsm_model_success [OF assms(7,8)] assms(2) by auto
  obtain X y s m md where run:
    "extract_features rows = Inr (X, y)"
    "scaler_fit env (take_rows X (train_indices env (length X))) = Inr s"
    "trace = save_bundle fs m s md"
    using train_steps_success [OF steps] by blast
  obtain X' y' s' m' md' where run':
    "extract_features rows' = Inr (X', y')"
    "scaler_fit env' (take_rows X' (train_indices env' (length X'))) = Inr s'"
    "trace' = save_bundle fs' m' s' md'"
    using train_steps_success [OF steps'] by blast
  have len: "length X = length rows" "length X' = length rows"
    using extract_features_length run(1) run'(1) assms(3) by auto
  have same_env: "scaler_fit env' = scaler_fit env" "train_indices env' = train_indices env"
    using assms(2) by (auto simp: train_indices_def fun_eq_iff)
  have "take_rows X (train_indices env (length rows)) =
        take_rows X' (train_indices env (length rows))"
    using take_rows_agree [OF run(1) run'(1) assms(3,4)] .
  then have "s = s'"
    using run(2) run'(2) len same_env by simp
  then show ?thesis
    using run(3) run'(3) by (simp add: save_bundle_def final_files_def Let_def)
qed

theorem scaler_fitted_on_training_split_only_witness:
  "length [example_row 4, example_row 7] = length [example_row 4, example_row 9]
   \<and> train_indices (scenario_train_env [example_row 4, example_row 7])
        (length [example_row 4, example_row 7]) = [0]
   \<and> [example_row 4, example_row 7] ! 0 = [example_row 4, example_row 9] ! 0
   \<and> example_row 7 \<noteq> example_row 9
   \<and> scaler_file (final_files no_files
        (snd (train_nsm_model (scenario_train_env [example_row 4, example_row 7]) 2 no_files))) =
     scaler_file (final_files scenario_files
        (snd (train_nsm_model (scenario_train_env [example_row 4, example_row 9]) 2
                scenario_files)))"
proof -
  have env': "scenario_train_env [example_row 4, example_row 9] =
      (scenario_train_env [example_row 4, example_row 7])
        \<lparr>fetch_rows := Inr [example_row 4, example_row 9]\<rparr>"
    by (simp add: scenario_train_env_def)
  have len: "length [example_row 4, example_row 7] = length [example_row 4, example_row 9]"
    by simp
  have agree: "\<forall>i\<in>set (train_indices (scenario_train_env [example_row 4, example_row 7])
                 (length [example_row 4, example_row 7])).
         i < length [example_row 4, example_row 7]
         \<and> [example_row 4, example_row 7] ! i = [example_row 4, example_row 9] ! i"
    by (simp add: train_indices_2)
  have ok: "map_of [(''success'', VBool True),
           (''training_samples'', num 1),
           (''validation_samples'', num 1),
           (''val_mae'', num 2),
           (''val_loss'', num 4),
           (''model_path'', VStr ''models/nsm_model.keras'')] ''success'' = Some (VBool True)"
    by simp
  have differ: "example_row 7 \<noteq> example_row 9"
    by (simp add: example_row_def)
  from scaler_fitted_on_training_split_only
    [OF scenario_train_env_fields(2) env' len agree
       scenario_run [of 4 7 no_files] ok scenario_run [of 4 9 scenario_files] ok]
  have "scaler_file (final_files no_files
        (snd (train_nsm_model (scenario_train_env [example_row 4, example_row 7]) 2 no_files))) =
     scaler_file (final_files scenario_files
        (snd (train_nsm_model (scenario_train_env [example_row 4, example_row 9]) 2
                scenario_files)))"
    by (auto simp: scenario_run)
  moreover have "train_indices (scenario_train_env [example_row 4, example_row 7])
        (length [example_row 4, example_row 7]) = [0]"
    by (simp add: train_indices_2)
  ultimately show ?thesis using differ by simp
qed

end
